theory Spec2Isabelle
  imports Main
begin

section \<open>JavaScript values\<close>

text \<open>
  The arguments of the \<open>BrandedToken\<close> contract-interact class are JavaScript values.
  The model keeps a missing argument (\<open>undefined\<close>, \<open>null\<close>), booleans, numbers
  (integer valued, or \<open>NaN\<close>), strings, arrays and plain objects (the list of their own
  properties). A string counts its characters, which matters only for being empty or
  not.
\<close>

datatype jsval =
    Undefined
  | Null
  | Bool bool
  | Num int
  | NaN
  | Str string
  | Arr "jsval list"
  | Obj "(string \<times> jsval) list"

text \<open>JavaScript's \<open>!x\<close> is \<open>\<not> truthy x\<close>.\<close>

fun truthy :: "jsval \<Rightarrow> bool" where
  "truthy Undefined = False"
| "truthy Null = False"
| "truthy (Bool b) = b"
| "truthy (Num n) = (n \<noteq> 0)"
| "truthy NaN = False"
| "truthy (Str s) = (s \<noteq> [])"
| "truthy (Arr xs) = True"
| "truthy (Obj fs) = True"

text \<open>
  \<open>txOptions.from\<close>, read from a truthy value (the source guards every read by
  \<open>!txOptions\<close>): an object's own property, \<open>undefined\<close> on a boolean, a number, a
  string or an array.
\<close>

fun get_from :: "jsval \<Rightarrow> jsval" where
  "get_from (Obj fs) = (case map_of fs ''from'' of None \<Rightarrow> Undefined | Some v \<Rightarrow> v)"
| "get_from v = Undefined"

text \<open>\<open>addresses.length\<close>, read from a truthy value.\<close>

fun get_length :: "jsval \<Rightarrow> jsval" where
  "get_length (Arr xs) = Num (int (length xs))"
| "get_length (Str s) = Num (int (length s))"
| "get_length (Obj fs) = (case map_of fs ''length'' of None \<Rightarrow> Undefined | Some v \<Rightarrow> v)"
| "get_length v = Undefined"

text \<open>
  The first argument of the constructor and of \<open>deployRawTx\<close> is tested with
  \<open>web3 instanceof Web3\<close>: either a \<open>Web3\<close> object (named by its endpoint) or some
  other value.
\<close>

datatype web3ref = Web3 string | NotWeb3 jsval

fun instanceofWeb3 :: "web3ref \<Rightarrow> bool" where
  "instanceofWeb3 (Web3 endpoint) = True"
| "instanceofWeb3 (NotWeb3 v) = False"

section \<open>Errors, contract bindings and raw transactions\<close>

text \<open>
  A template literal is kept as its parts: the literal text and the interpolated values.
  A \<open>TypeError\<close> is what the class itself throws or rejects with; a \<open>Rejection\<close> is
  a failure handed back by the node (a remote call or a transaction that failed). A
  synchronous \<open>throw\<close> and a rejected promise are both the left summand of a result.
\<close>

datatype part = Lit string | Val jsval

datatype error = TypeError "part list" | Rejection jsval

text \<open>
  \<open>Contracts.getBrandedToken(web3, address)\<close> binds the contract's interface to an
  address. \<open>contract.methods.name(args)\<close> and \<open>contract.deploy({data, arguments})\<close>
  build transaction objects: nothing is sent until the object is called or sent.
\<close>

datatype web3contract = Contract web3ref jsval

datatype rawtx =
    Method web3contract string "jsval list"
  | Deploy web3contract jsval "jsval list"

section \<open>The collaborators of the class\<close>

text \<open>
  The class calls into code that is not part of it; each is a parameter of the model.
  \<^item> \<open>isAddress\<close>: \<open>Web3.utils.isAddress\<close>;
  \<^item> \<open>getBrandedToken\<close>: \<open>Contracts.getBrandedToken\<close>, \<open>None\<close> for a falsy result;
  \<^item> \<open>getBIN\<close>: \<open>AbiBinProvider.getBIN\<close>;
  \<^item> \<open>call\<close>: \<open>tx.call()\<close>, a read of the chain state \<open>'c\<close> that resolves or rejects;
  \<^item> \<open>sendTransaction\<close>: \<open>Utils.sendTransaction(tx, txOptions)\<close>, which hands the
    transaction to the node: it resolves to a receipt or rejects, and is the only way
    the chain state changes.
\<close>

record 'c env =
  isAddress :: "jsval \<Rightarrow> bool"
  getBrandedToken :: "web3ref \<Rightarrow> jsval \<Rightarrow> web3contract option"
  getBIN :: "string \<Rightarrow> jsval"
  call :: "rawtx \<Rightarrow> 'c \<Rightarrow> error + jsval"
  sendTransaction :: "rawtx \<Rightarrow> jsval \<Rightarrow> 'c \<Rightarrow> (error + jsval) \<times> 'c"

section \<open>The class BrandedToken\<close>

record brandedToken =
  web3 :: web3ref
  address :: jsval
  contract :: web3contract

definition ContractName :: string where
  "ContractName = ''BrandedToken''"

definition constructor :: "'c env \<Rightarrow> web3ref \<Rightarrow> jsval \<Rightarrow> error + brandedToken" where
  "constructor E w a =
     (if \<not> instanceofWeb3 w then
        Inl (TypeError [Lit ''Mandatory Parameter 'web3' is missing or invalid''])
      else if \<not> isAddress E a then
        Inl (TypeError [Lit ''Mandatory Parameter 'address' is missing or invalid: '', Val a])
      else
        (case getBrandedToken E w a of
           None \<Rightarrow> Inl (TypeError [Lit ''Could not load branded token contract for: '', Val a])
         | Some c \<Rightarrow> Inr \<lparr>web3 = w, address = a, contract = c\<rparr>))"

text \<open>
  \<open>deployRawTx\<close>. The two conversion parameters are numbers; \<open>None\<close> is a missing one
  (\<open>undefined > 0\<close> and \<open>undefined < 5\<close> are both false). A falsy binding makes
  \<open>contract.deploy\<close> throw the runtime's own \<open>TypeError\<close>.
\<close>

fun numval :: "int option \<Rightarrow> jsval" where
  "numval None = Undefined"
| "numval (Some n) = Num n"

fun gt :: "int option \<Rightarrow> int \<Rightarrow> bool" where
  "gt None k = False"
| "gt (Some n) k = (n > k)"

fun lt :: "int option \<Rightarrow> int \<Rightarrow> bool" where
  "lt None k = False"
| "lt (Some n) k = (n < k)"

definition deployRawTx ::
  "'c env \<Rightarrow> web3ref \<Rightarrow> jsval \<Rightarrow> jsval \<Rightarrow> jsval \<Rightarrow> jsval \<Rightarrow> int option \<Rightarrow> int option \<Rightarrow> jsval
     \<Rightarrow> error + rawtx" where
  "deployRawTx E w valueToken symbol name decimals conversionRate conversionRateDecimals
       organization =
     (case w of
        NotWeb3 x \<Rightarrow>
          Inl (TypeError [Lit ''Mandatory Parameter 'web3' is missing or invalid: '', Val x])
      | Web3 endpoint \<Rightarrow>
      if \<not> isAddress E valueToken then
        Inl (TypeError [Lit ''Invalid valueToken address: '', Val valueToken, Lit ''.''])
      else if \<not> isAddress E organization then
        Inl (TypeError [Lit ''Invalid organization address: '', Val organization, Lit ''.''])
      else if \<not> gt conversionRate 0 then
        Inl (TypeError [Lit ''Invalid conversion rate: '', Val (numval conversionRate),
               Lit ''. It should be greater than zero''])
      else if \<not> lt conversionRateDecimals 5 then
        Inl (TypeError [Lit ''Invalid conversion rate decimal: '',
               Val (numval conversionRateDecimals), Lit ''. It should be less than 5''])
      else
        (case getBrandedToken E w Undefined of
           None \<Rightarrow> Inl (TypeError [Lit ''Cannot read property 'deploy' of '', Val Null])
         | Some c \<Rightarrow>
             Inr (Deploy c (getBIN E ContractName)
                    [valueToken, symbol, name, decimals, numval conversionRate,
                     numval conversionRateDecimals, organization])))"

definition convertToBrandedTokens ::
  "'c env \<Rightarrow> brandedToken \<Rightarrow> jsval \<Rightarrow> 'c \<Rightarrow> error + jsval" where
  "convertToBrandedTokens E this valueTokens ch =
     call E (Method (contract this) ''convertToBrandedTokens'' [valueTokens]) ch"

definition requestStakeRawTx :: "brandedToken \<Rightarrow> jsval \<Rightarrow> jsval \<Rightarrow> error + rawtx" where
  "requestStakeRawTx this stakeAmount mintAmount =
     Inr (Method (contract this) ''requestStake'' [stakeAmount, mintAmount])"

definition requestStake ::
  "'c env \<Rightarrow> brandedToken \<Rightarrow> jsval \<Rightarrow> jsval \<Rightarrow> 'c \<Rightarrow> (error + jsval) \<times> 'c" where
  "requestStake E this stakeAmount txOptions ch =
     (if \<not> truthy txOptions then
        (Inl (TypeError [Lit ''Invalid transaction options: '', Val txOptions, Lit ''.'']), ch)
      else if \<not> isAddress E (get_from txOptions) then
        (Inl (TypeError [Lit ''Invalid from address '', Val (get_from txOptions),
                Lit '' in transaction options.'']), ch)
      else
        (case convertToBrandedTokens E this stakeAmount ch of
           Inl err \<Rightarrow> (Inl err, ch)
         | Inr mintedAmount \<Rightarrow>
             (case requestStakeRawTx this stakeAmount mintedAmount of
                Inl err \<Rightarrow> (Inl err, ch)
              | Inr tx \<Rightarrow> sendTransaction E tx txOptions ch)))"

definition acceptStakeRequestRawTx ::
  "brandedToken \<Rightarrow> jsval \<Rightarrow> jsval \<Rightarrow> jsval \<Rightarrow> jsval \<Rightarrow> error + rawtx" where
  "acceptStakeRequestRawTx this stakeRequestHash r s v =
     (if \<not> truthy stakeRequestHash then
        Inl (TypeError [Lit ''Invalid stakeRequestHash: '', Val stakeRequestHash, Lit ''.''])
      else if \<not> truthy r then
        Inl (TypeError [Lit ''Invalid r of signature: '', Val r, Lit ''.''])
      else if \<not> truthy s then
        Inl (TypeError [Lit ''Invalid s of signature: '', Val s, Lit ''.''])
      else if \<not> truthy v then
        Inl (TypeError [Lit ''Invalid v of signature: '', Val v, Lit ''.''])
      else
        Inr (Method (contract this) ''acceptStakeRequest'' [stakeRequestHash, r, s, v]))"

definition acceptStakeRequest ::
  "'c env \<Rightarrow> brandedToken \<Rightarrow> jsval \<Rightarrow> jsval \<Rightarrow> jsval \<Rightarrow> jsval \<Rightarrow> jsval \<Rightarrow> 'c
     \<Rightarrow> (error + jsval) \<times> 'c" where
  "acceptStakeRequest E this stakeRequestHash r s v txOptions ch =
     (if \<not> truthy txOptions then
        (Inl (TypeError [Lit ''Invalid transaction options: '', Val txOptions, Lit ''.'']), ch)
      else if \<not> isAddress E (get_from txOptions) then
        (Inl (TypeError [Lit ''Invalid from address '', Val (get_from txOptions),
                Lit '' in transaction options.'']), ch)
      else
        (case acceptStakeRequestRawTx this stakeRequestHash r s v of
           Inl err \<Rightarrow> (Inl err, ch)
         | Inr tx \<Rightarrow> sendTransaction E tx txOptions ch))"

definition liftRestrictionRawTx :: "brandedToken \<Rightarrow> jsval \<Rightarrow> error + rawtx" where
  "liftRestrictionRawTx this addresses =
     (if \<not> truthy addresses then
        Inl (TypeError [Lit ''At least one addresses must be defined : '', Val addresses])
      else if get_length addresses = Num 0 then
        Inl (TypeError [Lit ''At least one addresses must be defined : '', Val addresses])
      else
        Inr (Method (contract this) ''liftRestriction'' [addresses]))"

definition liftRestriction ::
  "'c env \<Rightarrow> brandedToken \<Rightarrow> jsval \<Rightarrow> jsval \<Rightarrow> 'c \<Rightarrow> (error + jsval) \<times> 'c" where
  "liftRestriction E this addresses txOptions ch =
     (if \<not> truthy txOptions then
        (Inl (TypeError [Lit ''Invalid transaction options: '', Val txOptions, Lit ''.'']), ch)
      else if \<not> isAddress E (get_from txOptions) then
        (Inl (TypeError [Lit ''Invalid from address '', Val (get_from txOptions),
                Lit '' in transaction options.'']), ch)
      else
        (case liftRestrictionRawTx this addresses of
           Inl err \<Rightarrow> (Inl err, ch)
         | Inr tx \<Rightarrow> sendTransaction E tx txOptions ch))"

definition isUnrestricted :: "'c env \<Rightarrow> brandedToken \<Rightarrow> jsval \<Rightarrow> 'c \<Rightarrow> error + jsval" where
  "isUnrestricted E this a ch = call E (Method (contract this) ''isUnrestricted'' [a]) ch"

definition rejectStakeRequestRawTx :: "brandedToken \<Rightarrow> jsval \<Rightarrow> error + rawtx" where
  "rejectStakeRequestRawTx this stakeRequestHash =
     (if \<not> truthy stakeRequestHash then
        Inl (TypeError [Lit ''Invalid stakeRequestHash: '', Val stakeRequestHash, Lit ''.''])
      else
        Inr (Method (contract this) ''rejectStakeRequest'' [stakeRequestHash]))"

definition rejectStakeRequest ::
  "'c env \<Rightarrow> brandedToken \<Rightarrow> jsval \<Rightarrow> jsval \<Rightarrow> 'c \<Rightarrow> (error + jsval) \<times> 'c" where
  "rejectStakeRequest E this stakeRequestHash txOptions ch =
     (if \<not> truthy txOptions then
        (Inl (TypeError [Lit ''Invalid transaction options: '', Val txOptions, Lit ''.'']), ch)
      else if \<not> isAddress E (get_from txOptions) then
        (Inl (TypeError [Lit ''Invalid from address '', Val (get_from txOptions),
                Lit '' in transaction options.'']), ch)
      else
        (case rejectStakeRequestRawTx this stakeRequestHash of
           Inl err \<Rightarrow> (Inl err, ch)
         | Inr tx \<Rightarrow> sendTransaction E tx txOptions ch))"

section \<open>The stake-request registry of the specification\<close>

text \<open>
  The registry that holds the open stake requests is kept by the deployed contracts
  and reached through the \<open>StakeHelper\<close>; neither is among the sources of this
  library, which only builds and sends the transactions. What the specification says
  about the registry is therefore checked against a model of the specification itself.
\<close>

text \<open>
  Modelled from the spec: identities (stakers, workers, targets) and digests (request
  hashes, locks), opaque to the registry (missing: the contracts' address and hash types).
\<close>

type_synonym identity = string
type_synonym digest = nat

text \<open>
  Modelled from the spec: the error kinds of its taxonomy (missing: the contracts'
  failures).
\<close>

datatype kind =
    ValidationError
  | InvalidNonce
  | DuplicateRequest
  | RequestNotFound
  | UnauthorizedSigner
  | MalformedSignature
  | LedgerError
  | InsufficientAllowance

text \<open>
  Modelled from the spec: the StakeRequest of its data model, the worker's signature and
  the hash lock handed to \<open>accept\<close>, of which only the lock is submitted (missing: the
  contracts' structures).
\<close>

record stakeRequest =
  staker :: identity
  stakeAmount :: int
  mintAmount :: int
  gatewayTarget :: identity
  gasPrice :: int
  gasLimit :: int
  beneficiary :: identity
  nonce :: nat

record signature =
  sig_r :: nat
  sig_s :: nat
  sig_v :: nat

record hashLock =
  lock :: digest

text \<open>
  Modelled from the spec: the registry's durable state (missing: the contracts' storage),
  the two mappings \<open>staker \<rightarrow> requestHash\<close> and \<open>requestHash \<rightarrow> StakeRequest\<close>, and
  the NonceTracker's last consumed nonce per staker.
\<close>

record registry =
  hashOf :: "identity \<Rightarrow> digest option"
  requestOf :: "digest \<Rightarrow> stakeRequest option"
  consumed :: "identity \<Rightarrow> nat"

text \<open>
  Modelled from the spec: the collaborators of the registry (missing: RequestHasher,
  SignatureVerifier, HashLock and the ledger), each a parameter: the hash of a request
  in the registry's domain, the configured conversion rate, the verification of a
  signature over a digest against the current workers, the well-formedness of a lock,
  and whether the ledger carried out the value release of a request.
\<close>

record collaborators =
  hasher :: "stakeRequest \<Rightarrow> digest"
  rate :: int
  rateDecimals :: nat
  verify :: "digest \<Rightarrow> signature \<Rightarrow> kind + identity"
  lockWellFormed :: "digest \<Rightarrow> bool"
  release :: "stakeRequest \<Rightarrow> bool"

text \<open>
  Modelled from the spec: \<open>mintAmount\<close> is
  \<open>stakeAmount * conversionRate / 10^conversionRateDecimals\<close>, truncated toward zero
  (missing: the contract's conversion function); amounts are not negative, where the
  integer quotient is the truncated one.
\<close>

definition computeMintAmount :: "int \<Rightarrow> nat \<Rightarrow> int \<Rightarrow> int" where
  "computeMintAmount cr crd amount = amount * cr div 10 ^ crd"

text \<open>
  Modelled from the spec: \<open>NonceTracker.next\<close> (missing: the contracts' nonce), the
  exact next value after the last consumed one.
\<close>

definition next_nonce :: "registry \<Rightarrow> identity \<Rightarrow> nat" where
  "next_nonce reg s = consumed reg s + 1"

text \<open>
  Modelled from the spec: \<open>lookup(staker)\<close> and \<open>lookup(requestHash)\<close> (missing: the
  StakeHelper's two queries), read-only; \<open>None\<close> is the null or empty answer.
\<close>

definition lookup_staker :: "registry \<Rightarrow> identity \<Rightarrow> digest option" where
  "lookup_staker reg s = hashOf reg s"

definition lookup_hash :: "registry \<Rightarrow> digest \<Rightarrow> stakeRequest option" where
  "lookup_hash reg h = requestOf reg h"

text \<open>
  Modelled from the spec: the state of a staker (missing: the contracts' storage), \<open>Open\<close>
  exactly while the staker has a request hash.
\<close>

datatype state = Empty | Open

definition state_of :: "registry \<Rightarrow> identity \<Rightarrow> state" where
  "state_of reg s = (case lookup_staker reg s of None \<Rightarrow> Empty | Some h \<Rightarrow> Open)"

text \<open>
  Modelled from the spec: \<open>create(request)\<close> (missing: the contract's
  \<open>requestStake\<close>). It requires state \<open>Empty\<close> for the staker and fails with
  \<open>DuplicateRequest\<close> otherwise; requires the next nonce and consumes it; requires a
  positive stake and the mint amount of the configured rate; then stores both mappings.
  The requirements are checked in the order the specification lists them.
\<close>

definition create :: "collaborators \<Rightarrow> registry \<Rightarrow> stakeRequest \<Rightarrow> kind + registry" where
  "create P reg req =
     (if state_of reg (staker req) = Open then Inl DuplicateRequest
      else if nonce req \<noteq> next_nonce reg (staker req) then Inl InvalidNonce
      else if \<not> 0 < stakeAmount req then Inl ValidationError
      else if mintAmount req \<noteq>
                computeMintAmount (rate P) (rateDecimals P) (stakeAmount req)
        then Inl ValidationError
      else Inr (reg\<lparr>hashOf := (hashOf reg)(staker req \<mapsto> hasher P req),
                     requestOf := (requestOf reg)(hasher P req \<mapsto> req),
                     consumed := (consumed reg)(staker req := nonce req)\<rparr>))"

text \<open>
  Modelled from the spec: \<open>accept(requestHash, signature, hashLock)\<close> (missing: the
  contracts' \<open>acceptStakeRequest\<close>). It requires state \<open>Open\<close> with this hash for the
  request's staker, a signature that verifies against the digest, and a well-formed
  lock; the value release and the clearing of both mappings are one step, so a failed
  release clears nothing.
\<close>

definition accept ::
  "collaborators \<Rightarrow> registry \<Rightarrow> digest \<Rightarrow> signature \<Rightarrow> hashLock \<Rightarrow> kind + registry" where
  "accept P reg h sg hl =
     (case lookup_hash reg h of
        None \<Rightarrow> Inl RequestNotFound
      | Some req \<Rightarrow>
          if lookup_staker reg (staker req) \<noteq> Some h then Inl RequestNotFound
          else
            (case verify P h sg of
               Inl e \<Rightarrow> Inl e
             | Inr signer \<Rightarrow>
                 if \<not> lockWellFormed P (lock hl) then Inl ValidationError
                 else if \<not> release P req then Inl LedgerError
                 else Inr (reg\<lparr>hashOf := (hashOf reg)(staker req := None),
                                requestOf := (requestOf reg)(h := None)\<rparr>)))"

section \<open>A sample deployment\<close>

text \<open>
  A concrete instance of the collaborators, used to run the operations on explicit
  inputs: a chain that records the allowance granted to the contract and every
  transaction handed to the node, converts at rate 1000 with 5 decimals, and reverts a
  stake request that exceeds the allowance.
\<close>

record chain =
  allowance :: int
  submitted :: "(rawtx \<times> jsval) list"

definition sampleIsAddress :: "jsval \<Rightarrow> bool" where
  "sampleIsAddress v = (case v of Str s \<Rightarrow> length s = 42 \<and> take 2 s = ''0x'' | _ \<Rightarrow> False)"

fun sampleConvert :: "jsval list \<Rightarrow> error + jsval" where
  "sampleConvert [Num n] = Inr (Num (computeMintAmount 1000 5 n))"
| "sampleConvert args = Inl (Rejection (Str ''revert''))"

fun sampleCall :: "rawtx \<Rightarrow> chain \<Rightarrow> error + jsval" where
  "sampleCall (Method c name args) ch =
     (if name = ''convertToBrandedTokens'' then sampleConvert args
      else Inl (Rejection (Str ''revert'')))"
| "sampleCall (Deploy c bin args) ch = Inl (Rejection (Str ''revert''))"

definition receipt :: jsval where
  "receipt = Obj [(''status'', Num 1)]"

fun sampleOutcome :: "rawtx \<Rightarrow> chain \<Rightarrow> error + jsval" where
  "sampleOutcome (Method c name (Num amount # rest)) ch =
     (if name = ''requestStake'' \<and> allowance ch < amount then Inl (Rejection (Str ''revert''))
      else Inr receipt)"
| "sampleOutcome tx ch = Inr receipt"

definition sampleSend :: "rawtx \<Rightarrow> jsval \<Rightarrow> chain \<Rightarrow> (error + jsval) \<times> chain" where
  "sampleSend tx txOptions ch =
     (sampleOutcome tx ch, ch\<lparr>submitted := submitted ch @ [(tx, txOptions)]\<rparr>)"

definition sampleEnv :: "chain env" where
  "sampleEnv =
     \<lparr>isAddress = sampleIsAddress,
      getBrandedToken = (\<lambda>w a. Some (Contract w a)),
      getBIN = (\<lambda>n. Str ''0x6080''),
      call = sampleCall,
      sendTransaction = sampleSend\<rparr>"

definition node :: web3ref where
  "node = Web3 ''http://localhost:8545''"

definition tokenAddress :: jsval where
  "tokenAddress = Str ''0x1111111111111111111111111111111111111111''"

definition owner :: jsval where
  "owner = Str ''0x2222222222222222222222222222222222222222''"

definition sampleToken :: brandedToken where
  "sampleToken = \<lparr>web3 = node, address = tokenAddress, contract = Contract node tokenAddress\<rparr>"

definition sampleTxOptions :: jsval where
  "sampleTxOptions = Obj [(''from'', owner), (''gas'', Str ''8000000'')]"

definition sampleParams :: collaborators where
  "sampleParams =
     \<lparr>hasher = (\<lambda>req. 7 + nonce req),
      rate = 1000,
      rateDecimals = 5,
      verify = (\<lambda>h sg. if sig_r sg = 0 \<or> sig_s sg = 0 \<or> sig_v sg = 0 then Inl MalformedSignature
                         else if sig_r sg = h then Inr ''worker'' else Inl UnauthorizedSigner),
      lockWellFormed = (\<lambda>l. l \<noteq> 0),
      release = (\<lambda>req. True)\<rparr>"

definition emptyRegistry :: registry where
  "emptyRegistry = \<lparr>hashOf = (\<lambda>s. None), requestOf = (\<lambda>h. None), consumed = (\<lambda>s. 0)\<rparr>"

definition sampleRequest :: stakeRequest where
  "sampleRequest =
     \<lparr>staker = ''staker'', stakeAmount = 200, mintAmount = 2, gatewayTarget = ''gateway'',
      gasPrice = 8000000, gasLimit = 100, beneficiary = ''beneficiary'', nonce = 1\<rparr>"

text \<open>The registry once the sample request has been created in the empty one.\<close>

definition openRegistry :: registry where
  "openRegistry =
     \<lparr>hashOf = (\<lambda>s. None)(''staker'' \<mapsto> 8),
      requestOf = (\<lambda>h. None)(8 \<mapsto> sampleRequest),
      consumed = (\<lambda>s. 0)(''staker'' := 1)\<rparr>"

text \<open>
  Modelled from the spec: the registry after an operation (missing: the contracts'
  storage), the new one when it succeeded, the old one when it failed.
\<close>

definition registry_after :: "kind + registry \<Rightarrow> registry \<Rightarrow> registry" where
  "registry_after res reg = (case res of Inl e \<Rightarrow> reg | Inr reg' \<Rightarrow> reg')"

text \<open>
  In the words of the specification, to be compared with \<open>truthy\<close>: an argument that is
  missing (\<open>undefined\<close> or \<open>null\<close>), empty (the empty string) or zero (the number 0).
\<close>

definition missing_empty_or_zero :: "jsval \<Rightarrow> bool" where
  "missing_empty_or_zero x = (x = Undefined \<or> x = Null \<or> x = Str [] \<or> x = Num 0)"

section \<open>Deployment parameters\<close>

text \<open>
  C1. The documented scenario deploys with \<open>conversionRate = 1000\<close> and
  \<open>conversionRateDecimals = 5\<close>. The doc comment of \<open>deployRawTx\<close> requires that
  \<open>conversionRateDecimals\<close> is not greater than 5, but its guard is
  \<open>!(conversionRateDecimals < 5)\<close>: at 5 decimals \<open>deployRawTx\<close> throws, whatever the
  other arguments and collaborators are, and never builds the deployment transaction.
\<close>

theorem deployRawTx_five_decimals_throws:
  "(\<exists>parts. deployRawTx E w valueToken symbol name decimals conversionRate (Some 5)
              organization = Inl (TypeError parts)) \<and>
   deployRawTx sampleEnv node tokenAddress (Str ''BT'') (Str ''MyBrandedToken'') (Str ''18'')
       (Some 1000) (Some 5) owner =
     Inl (TypeError [Lit ''Invalid conversion rate decimal: '', Val (Num 5),
            Lit ''. It should be less than 5''])"
  by (simp add: deployRawTx_def node_def sampleEnv_def sampleIsAddress_def tokenAddress_def
      owner_def split: web3ref.split)

text \<open>
  With 4 decimals the same deployment is built, and the conversion of the scenario is
  the quotient the specification gives: 200 at rate 1000 with 5 decimals mints 2.
\<close>

lemma deployRawTx_four_decimals:
  "deployRawTx sampleEnv node tokenAddress (Str ''BT'') (Str ''MyBrandedToken'') (Str ''18'')
       (Some 1000) (Some 4) owner =
     Inr (Deploy (Contract node Undefined) (Str ''0x6080'')
            [tokenAddress, Str ''BT'', Str ''MyBrandedToken'', Str ''18'', Num 1000, Num 4, owner])"
  by (simp add: deployRawTx_def node_def sampleEnv_def sampleIsAddress_def tokenAddress_def
      owner_def ContractName_def)

lemma scenario_mint_amount: "computeMintAmount 1000 5 200 = 2"
  by (simp add: computeMintAmount_def)

section \<open>The instance invariant\<close>

lemma sampleIsAddress_tokenAddress: "sampleIsAddress tokenAddress"
  by (simp add: sampleIsAddress_def tokenAddress_def)

lemma sampleIsAddress_owner: "sampleIsAddress owner"
  by (simp add: sampleIsAddress_def owner_def)

lemma get_from_sampleTxOptions: "get_from sampleTxOptions = owner"
  by (simp add: sampleTxOptions_def)

lemma truthy_sampleTxOptions: "truthy sampleTxOptions"
  by (simp add: sampleTxOptions_def)

text \<open>
  C10. The constructor returns an instance exactly when its \<open>web3\<close> argument is a
  \<open>Web3\<close> instance, its \<open>address\<close> argument is a valid address and the contract
  binding loaded for them is not null; the instance then holds these very values. In
  every other case it throws a \<open>TypeError\<close>.
\<close>

theorem constructor_invariant:
  "(constructor E w a = Inr bt \<longrightarrow>
      web3 bt = w \<and> address bt = a \<and> instanceofWeb3 (web3 bt) \<and> isAddress E (address bt) \<and>
      getBrandedToken E (web3 bt) (address bt) = Some (contract bt)) \<and>
   ((\<exists>parts. constructor E w a = Inl (TypeError parts)) \<longleftrightarrow>
      (\<not> instanceofWeb3 w \<or> \<not> isAddress E a \<or> getBrandedToken E w a = None)) \<and>
   ((\<exists>inst. constructor E w a = Inr inst) \<longleftrightarrow>
      (instanceofWeb3 w \<and> isAddress E a \<and> getBrandedToken E w a \<noteq> None))"
  by (auto simp add: constructor_def split: if_splits option.splits)

theorem constructor_invariant_witness:
  "constructor sampleEnv node tokenAddress = Inr sampleToken \<and>
   instanceofWeb3 (web3 sampleToken) \<and> isAddress sampleEnv (address sampleToken) \<and>
   getBrandedToken sampleEnv (web3 sampleToken) (address sampleToken) =
     Some (contract sampleToken) \<and>
   (\<exists>parts. constructor sampleEnv (NotWeb3 Undefined) tokenAddress = Inl (TypeError parts)) \<and>
   (\<exists>parts. constructor sampleEnv node (Str ''0x12'') = Inl (TypeError parts))"
proof -
  have made: "constructor sampleEnv node tokenAddress = Inr sampleToken"
    by (simp add: constructor_def sampleEnv_def sampleToken_def node_def
        sampleIsAddress_tokenAddress)
  have short: "\<not> isAddress sampleEnv (Str ''0x12'')"
    by (simp add: sampleEnv_def sampleIsAddress_def)
  have other: "\<not> instanceofWeb3 (NotWeb3 Undefined)"
    by simp
  from made constructor_invariant [of sampleEnv node tokenAddress sampleToken]
  have inv: "instanceofWeb3 (web3 sampleToken) \<and> isAddress sampleEnv (address sampleToken) \<and>
             getBrandedToken sampleEnv (web3 sampleToken) (address sampleToken) =
               Some (contract sampleToken)"
    by blast
  from other constructor_invariant [of sampleEnv "NotWeb3 Undefined" tokenAddress sampleToken]
  have thrown1: "\<exists>parts. constructor sampleEnv (NotWeb3 Undefined) tokenAddress =
                   Inl (TypeError parts)"
    by blast
  from short constructor_invariant [of sampleEnv node "Str ''0x12''" sampleToken]
  have thrown2: "\<exists>parts. constructor sampleEnv node (Str ''0x12'') = Inl (TypeError parts)"
    by blast
  show ?thesis
    using made inv thrown1 thrown2 by blast
qed

section \<open>Requesting a stake\<close>

text \<open>
  C4. With transaction options whose \<open>from\<close> is a valid address, \<open>requestStake\<close>
  first obtains the mint amount from \<open>convertToBrandedTokens\<close> applied to the stake
  amount, and then hands to the node the \<open>requestStake\<close> transaction of the contract
  whose arguments are the stake amount and that mint amount, in this order. (When the
  conversion call rejects, the rejection is the result and nothing is sent.)
\<close>

theorem requestStake_sends_converted_pair:
  assumes "truthy txOptions" and "isAddress E (get_from txOptions)"
  shows "requestStake E this amount txOptions ch =
           (case convertToBrandedTokens E this amount ch of
              Inl err \<Rightarrow> (Inl err, ch)
            | Inr minted \<Rightarrow>
                sendTransaction E
                  (Method (contract this) ''requestStake'' [amount, minted])
                  txOptions ch)"
  using assms by (simp add: requestStake_def requestStakeRawTx_def split: sum.split)

theorem requestStake_sends_converted_pair_witness:
  "truthy sampleTxOptions \<and> isAddress sampleEnv (get_from sampleTxOptions) \<and>
   convertToBrandedTokens sampleEnv sampleToken (Num 200) \<lparr>allowance = 1000, submitted = []\<rparr>
     = Inr (Num 2) \<and>
   requestStake sampleEnv sampleToken (Num 200) sampleTxOptions
       \<lparr>allowance = 1000, submitted = []\<rparr> =
     (Inr receipt,
      \<lparr>allowance = 1000,
       submitted = [(Method (Contract node tokenAddress) ''requestStake'' [Num 200, Num 2],
                     sampleTxOptions)]\<rparr>)"
proof -
  have valid: "isAddress sampleEnv (get_from sampleTxOptions)"
    by (simp add: sampleEnv_def get_from_sampleTxOptions sampleIsAddress_owner)
  have conv: "convertToBrandedTokens sampleEnv sampleToken (Num 200)
                \<lparr>allowance = 1000, submitted = []\<rparr> = Inr (Num 2)"
    by (simp add: convertToBrandedTokens_def sampleEnv_def computeMintAmount_def)
  have sent: "sendTransaction sampleEnv
                (Method (contract sampleToken) ''requestStake'' [Num 200, Num 2])
                sampleTxOptions \<lparr>allowance = 1000, submitted = []\<rparr> =
              (Inr receipt,
               \<lparr>allowance = 1000,
                submitted = [(Method (Contract node tokenAddress) ''requestStake''
                               [Num 200, Num 2], sampleTxOptions)]\<rparr>)"
    by (simp add: sampleEnv_def sampleSend_def sampleToken_def)
  show ?thesis
    using requestStake_sends_converted_pair [OF truthy_sampleTxOptions valid,
        of sampleToken "Num 200" "\<lparr>allowance = 1000, submitted = []\<rparr>"]
      truthy_sampleTxOptions valid conv sent
    by simp
qed

section \<open>Validation of the transaction options\<close>

text \<open>
  C5. When \<open>txOptions\<close> is missing (falsy) or \<open>txOptions.from\<close> is not a valid
  address, each of \<open>requestStake\<close>, \<open>acceptStakeRequest\<close> and \<open>rejectStakeRequest\<close>
  rejects with a \<open>TypeError\<close> and leaves the chain state as it was: no call is made
  and no transaction is sent.
\<close>

theorem invalid_txOptions_rejected_unsent:
  assumes "\<not> truthy txOptions \<or> \<not> isAddress E (get_from txOptions)"
  shows "(\<exists>parts. requestStake E this amount txOptions ch = (Inl (TypeError parts), ch)) \<and>
         (\<exists>parts. acceptStakeRequest E this h r s v txOptions ch = (Inl (TypeError parts), ch)) \<and>
         (\<exists>parts. rejectStakeRequest E this h txOptions ch = (Inl (TypeError parts), ch))"
  using assms
  by (auto simp add: requestStake_def acceptStakeRequest_def rejectStakeRequest_def)

theorem invalid_txOptions_rejected_unsent_witness:
  "\<not> isAddress sampleEnv (get_from (Obj [(''gas'', Str ''8000000'')])) \<and>
   (\<exists>parts. requestStake sampleEnv sampleToken (Num 200) (Obj [(''gas'', Str ''8000000'')])
              \<lparr>allowance = 1000, submitted = []\<rparr> =
            (Inl (TypeError parts), \<lparr>allowance = 1000, submitted = []\<rparr>)) \<and>
   (\<exists>parts. acceptStakeRequest sampleEnv sampleToken (Str ''0xab'') (Str ''0x01'')
              (Str ''0x02'') (Num 27) (Obj [(''gas'', Str ''8000000'')])
              \<lparr>allowance = 1000, submitted = []\<rparr> =
            (Inl (TypeError parts), \<lparr>allowance = 1000, submitted = []\<rparr>)) \<and>
   (\<exists>parts. rejectStakeRequest sampleEnv sampleToken (Str ''0xab'')
              (Obj [(''gas'', Str ''8000000'')]) \<lparr>allowance = 1000, submitted = []\<rparr> =
            (Inl (TypeError parts), \<lparr>allowance = 1000, submitted = []\<rparr>)) \<and>
   (\<exists>parts. requestStake sampleEnv sampleToken (Num 200) Undefined
              \<lparr>allowance = 1000, submitted = []\<rparr> =
            (Inl (TypeError parts), \<lparr>allowance = 1000, submitted = []\<rparr>))"
proof -
  have nofrom: "\<not> isAddress sampleEnv (get_from (Obj [(''gas'', Str ''8000000'')]))"
    by (simp add: sampleEnv_def sampleIsAddress_def)
  have missing: "\<not> truthy Undefined"
    by simp
  show ?thesis
    using nofrom
      invalid_txOptions_rejected_unsent [OF disjI2, OF nofrom, of sampleToken "Num 200"
        "\<lparr>allowance = 1000, submitted = []\<rparr>" "Str ''0xab''" "Str ''0x01''" "Str ''0x02''"
        "Num 27"]
      invalid_txOptions_rejected_unsent [OF disjI1, OF missing, of sampleEnv sampleToken
        "Num 200" "\<lparr>allowance = 1000, submitted = []\<rparr>" "Str ''0xab''" "Str ''0x01''"
        "Str ''0x02''" "Num 27"]
    by blast
qed

section \<open>Raw transactions and their arguments\<close>

lemma falsy_cases:
  "(\<not> truthy x) =
     (x = Undefined \<or> x = Null \<or> x = Bool False \<or> x = Num 0 \<or> x = NaN \<or> x = Str [])"
  by (cases x) simp_all

lemma missing_empty_or_zero_falsy: "missing_empty_or_zero x \<Longrightarrow> \<not> truthy x"
  by (auto simp add: missing_empty_or_zero_def)

text \<open>
  C6, as stated, fails in its only-if half: the guards of \<open>acceptStakeRequestRawTx\<close>
  are \<open>!x\<close>, which also holds for \<open>false\<close> and \<open>NaN\<close>. With \<open>v = false\<close> and the
  other three arguments non-empty strings, no argument is missing, empty or zero, and
  the function rejects with the \<open>TypeError\<close> for \<open>v\<close>.
\<close>

theorem acceptStakeRequestRawTx_rejects_false:
  "acceptStakeRequestRawTx sampleToken (Str ''0xab'') (Str ''0x01'') (Str ''0x02'') (Bool False) =
     Inl (TypeError [Lit ''Invalid v of signature: '', Val (Bool False), Lit ''.'']) \<and>
   \<not> missing_empty_or_zero (Str ''0xab'') \<and> \<not> missing_empty_or_zero (Str ''0x01'') \<and>
   \<not> missing_empty_or_zero (Str ''0x02'') \<and> \<not> missing_empty_or_zero (Bool False)"
  by (simp add: acceptStakeRequestRawTx_def missing_empty_or_zero_def)

text \<open>
  C6, amended. \<open>acceptStakeRequestRawTx\<close> rejects with a \<open>TypeError\<close> if and only if at
  least one of \<open>stakeRequestHash\<close>, \<open>r\<close>, \<open>s\<close>, \<open>v\<close> is falsy, that is \<open>undefined\<close>,
  \<open>null\<close>, \<open>false\<close>, \<open>0\<close>, \<open>NaN\<close> or the empty string; otherwise it resolves to the
  contract's \<open>acceptStakeRequest\<close> transaction over exactly these four arguments. An
  argument that is missing, empty or zero is falsy, so it is rejected.
\<close>

theorem acceptStakeRequestRawTx_rejects_iff_falsy:
  "((\<exists>parts. acceptStakeRequestRawTx this h r s v = Inl (TypeError parts)) \<longleftrightarrow>
      (\<not> truthy h \<or> \<not> truthy r \<or> \<not> truthy s \<or> \<not> truthy v)) \<and>
   (acceptStakeRequestRawTx this h r s v =
      Inr (Method (contract this) ''acceptStakeRequest'' [h, r, s, v]) \<longleftrightarrow>
      (truthy h \<and> truthy r \<and> truthy s \<and> truthy v)) \<and>
   ((\<not> truthy x) \<longleftrightarrow>
      (x = Undefined \<or> x = Null \<or> x = Bool False \<or> x = Num 0 \<or> x = NaN \<or> x = Str [])) \<and>
   (missing_empty_or_zero h \<or> missing_empty_or_zero r \<or> missing_empty_or_zero s \<or>
      missing_empty_or_zero v \<longrightarrow>
      (\<exists>parts. acceptStakeRequestRawTx this h r s v = Inl (TypeError parts)))"
proof -
  have rejects: "(\<exists>parts. acceptStakeRequestRawTx this h r s v = Inl (TypeError parts)) \<longleftrightarrow>
                   (\<not> truthy h \<or> \<not> truthy r \<or> \<not> truthy s \<or> \<not> truthy v)"
    by (simp add: acceptStakeRequestRawTx_def)
  have resolves: "acceptStakeRequestRawTx this h r s v =
                    Inr (Method (contract this) ''acceptStakeRequest'' [h, r, s, v]) \<longleftrightarrow>
                    (truthy h \<and> truthy r \<and> truthy s \<and> truthy v)"
    by (simp add: acceptStakeRequestRawTx_def)
  have worded: "missing_empty_or_zero h \<or> missing_empty_or_zero r \<or> missing_empty_or_zero s \<or>
                  missing_empty_or_zero v \<longrightarrow>
                (\<exists>parts. acceptStakeRequestRawTx this h r s v = Inl (TypeError parts))"
    using rejects missing_empty_or_zero_falsy by blast
  from rejects resolves falsy_cases [of x] worded show ?thesis
    by blast
qed

theorem acceptStakeRequestRawTx_rejects_iff_falsy_witness:
  "acceptStakeRequestRawTx sampleToken (Str ''0xab'') (Str ''0x01'') (Str ''0x02'') (Num 27) =
     Inr (Method (Contract node tokenAddress) ''acceptStakeRequest''
            [Str ''0xab'', Str ''0x01'', Str ''0x02'', Num 27]) \<and>
   (\<exists>parts. acceptStakeRequestRawTx sampleToken (Str ''0xab'') (Str ''0x01'') (Str ''0x02'')
              (Num 0) = Inl (TypeError parts)) \<and>
   (\<exists>parts. acceptStakeRequestRawTx sampleToken (Str ''0xab'') (Str ''0x01'') (Str ''0x02'')
              (Bool False) = Inl (TypeError parts)) \<and>
   (\<exists>parts. acceptStakeRequestRawTx sampleToken (Str ''0xab'') NaN (Str ''0x02'')
              (Num 27) = Inl (TypeError parts)) \<and>
   (\<exists>parts. acceptStakeRequestRawTx sampleToken (Str ''0xab'') (Str []) (Str ''0x02'')
              (Num 27) = Inl (TypeError parts)) \<and>
   (\<exists>parts. acceptStakeRequestRawTx sampleToken Undefined (Str ''0x01'') (Str ''0x02'')
              (Num 27) = Inl (TypeError parts))"
proof -
  have c: "contract sampleToken = Contract node tokenAddress"
    by (simp add: sampleToken_def)
  have ok: "truthy (Str ''0xab'') \<and> truthy (Str ''0x01'') \<and> truthy (Str ''0x02'') \<and>
            truthy (Num 27)"
    by simp
  have zero: "\<not> truthy (Num 0)"
    and no: "\<not> truthy (Bool False)"
    and nan: "\<not> truthy NaN"
    and empty: "\<not> truthy (Str [])"
    and missing: "missing_empty_or_zero Undefined"
    by (simp_all add: missing_empty_or_zero_def)
  from ok
    acceptStakeRequestRawTx_rejects_iff_falsy [of sampleToken "Str ''0xab''" "Str ''0x01''"
      "Str ''0x02''" "Num 27" Undefined]
  have "acceptStakeRequestRawTx sampleToken (Str ''0xab'') (Str ''0x01'') (Str ''0x02'')
          (Num 27) =
        Inr (Method (contract sampleToken) ''acceptStakeRequest''
               [Str ''0xab'', Str ''0x01'', Str ''0x02'', Num 27])"
    by blast
  with c
  have resolved: "acceptStakeRequestRawTx sampleToken (Str ''0xab'') (Str ''0x01'')
                    (Str ''0x02'') (Num 27) =
                  Inr (Method (Contract node tokenAddress) ''acceptStakeRequest''
                         [Str ''0xab'', Str ''0x01'', Str ''0x02'', Num 27])"
    by simp
  from zero
    acceptStakeRequestRawTx_rejects_iff_falsy [of sampleToken "Str ''0xab''" "Str ''0x01''"
      "Str ''0x02''" "Num 0" Undefined]
  have r1: "\<exists>parts. acceptStakeRequestRawTx sampleToken (Str ''0xab'') (Str ''0x01'')
              (Str ''0x02'') (Num 0) = Inl (TypeError parts)"
    by blast
  from no
    acceptStakeRequestRawTx_rejects_iff_falsy [of sampleToken "Str ''0xab''" "Str ''0x01''"
      "Str ''0x02''" "Bool False" Undefined]
  have r2: "\<exists>parts. acceptStakeRequestRawTx sampleToken (Str ''0xab'') (Str ''0x01'')
              (Str ''0x02'') (Bool False) = Inl (TypeError parts)"
    by blast
  from nan
    acceptStakeRequestRawTx_rejects_iff_falsy [of sampleToken "Str ''0xab''" NaN
      "Str ''0x02''" "Num 27" Undefined]
  have r3: "\<exists>parts. acceptStakeRequestRawTx sampleToken (Str ''0xab'') NaN
              (Str ''0x02'') (Num 27) = Inl (TypeError parts)"
    by blast
  from empty
    acceptStakeRequestRawTx_rejects_iff_falsy [of sampleToken "Str ''0xab''" "Str []"
      "Str ''0x02''" "Num 27" Undefined]
  have r4: "\<exists>parts. acceptStakeRequestRawTx sampleToken (Str ''0xab'') (Str [])
              (Str ''0x02'') (Num 27) = Inl (TypeError parts)"
    by blast
  from missing
    acceptStakeRequestRawTx_rejects_iff_falsy [of sampleToken Undefined "Str ''0x01''"
      "Str ''0x02''" "Num 27" Undefined]
  have r5: "\<exists>parts. acceptStakeRequestRawTx sampleToken Undefined (Str ''0x01'')
              (Str ''0x02'') (Num 27) = Inl (TypeError parts)"
    by blast
  show ?thesis
    using resolved r1 r2 r3 r4 r5 by blast
qed

text \<open>
  C9. \<open>liftRestrictionRawTx\<close> rejects with a \<open>TypeError\<close> if and only if its argument
  is missing (falsy) or has length 0, and otherwise resolves to the contract's
  \<open>liftRestriction\<close> transaction over that argument. For an array this is: it rejects
  exactly the empty list. Hence \<open>liftRestriction\<close> rejects an empty list with a
  \<open>TypeError\<close> and sends nothing, whatever the transaction options are.
\<close>

theorem liftRestrictionRawTx_rejects_iff:
  "((\<exists>parts. liftRestrictionRawTx this a = Inl (TypeError parts)) \<longleftrightarrow>
      (\<not> truthy a \<or> get_length a = Num 0)) \<and>
   (liftRestrictionRawTx this a = Inr (Method (contract this) ''liftRestriction'' [a]) \<longleftrightarrow>
      (truthy a \<and> get_length a \<noteq> Num 0)) \<and>
   (\<exists>parts. liftRestrictionRawTx this Undefined = Inl (TypeError parts)) \<and>
   (\<exists>parts. liftRestrictionRawTx this Null = Inl (TypeError parts)) \<and>
   ((\<exists>parts. liftRestrictionRawTx this (Arr xs) = Inl (TypeError parts)) \<longleftrightarrow> xs = []) \<and>
   (liftRestrictionRawTx this (Arr xs) =
      Inr (Method (contract this) ''liftRestriction'' [Arr xs]) \<longleftrightarrow> xs \<noteq> []) \<and>
   (\<exists>parts. liftRestriction E this (Arr []) txOptions ch = (Inl (TypeError parts), ch))"
  by (simp add: liftRestrictionRawTx_def liftRestriction_def)

theorem liftRestrictionRawTx_rejects_iff_witness:
  "liftRestrictionRawTx sampleToken (Arr [owner]) =
     Inr (Method (Contract node tokenAddress) ''liftRestriction'' [Arr [owner]]) \<and>
   (\<exists>parts. liftRestrictionRawTx sampleToken (Arr []) = Inl (TypeError parts)) \<and>
   (\<exists>parts. liftRestriction sampleEnv sampleToken (Arr []) sampleTxOptions
              \<lparr>allowance = 1000, submitted = []\<rparr> =
            (Inl (TypeError parts), \<lparr>allowance = 1000, submitted = []\<rparr>))"
proof -
  have c: "contract sampleToken = Contract node tokenAddress"
    by (simp add: sampleToken_def)
  have one: "[owner] \<noteq> []"
    by simp
  from one
    liftRestrictionRawTx_rejects_iff [where this = sampleToken and a = "Arr [owner]"
      and xs = "[owner]" and E = sampleEnv and txOptions = sampleTxOptions
      and ch = "\<lparr>allowance = 1000, submitted = []\<rparr>"]
  have "liftRestrictionRawTx sampleToken (Arr [owner]) =
          Inr (Method (contract sampleToken) ''liftRestriction'' [Arr [owner]])"
    by blast
  with c
  have resolved: "liftRestrictionRawTx sampleToken (Arr [owner]) =
                    Inr (Method (Contract node tokenAddress) ''liftRestriction'' [Arr [owner]])"
    by simp
  from liftRestrictionRawTx_rejects_iff [where this = sampleToken and a = "Arr []"
      and xs = "[]" and E = sampleEnv and txOptions = sampleTxOptions
      and ch = "\<lparr>allowance = 1000, submitted = []\<rparr>"]
  have rejected: "(\<exists>parts. liftRestrictionRawTx sampleToken (Arr []) = Inl (TypeError parts)) \<and>
                  (\<exists>parts. liftRestriction sampleEnv sampleToken (Arr []) sampleTxOptions
                             \<lparr>allowance = 1000, submitted = []\<rparr> =
                           (Inl (TypeError parts), \<lparr>allowance = 1000, submitted = []\<rparr>))"
    by blast
  show ?thesis
    using resolved rejected by blast
qed

section \<open>What is checked before a transaction is sent\<close>

lemma requestStake_sample:
  "requestStake sampleEnv sampleToken (Num 200) sampleTxOptions \<lparr>allowance = al, submitted = []\<rparr> =
     (sampleOutcome (Method (Contract node tokenAddress) ''requestStake'' [Num 200, Num 2])
        \<lparr>allowance = al, submitted = []\<rparr>,
      \<lparr>allowance = al,
       submitted = [(Method (Contract node tokenAddress) ''requestStake'' [Num 200, Num 2],
                     sampleTxOptions)]\<rparr>)"
  by (simp add: requestStake_def requestStakeRawTx_def convertToBrandedTokens_def
      truthy_sampleTxOptions get_from_sampleTxOptions sampleEnv_def sampleIsAddress_owner
      sampleSend_def sampleToken_def computeMintAmount_def)

text \<open>
  C2, as stated, fails: \<open>requestStake\<close> makes no allowance check. On a chain where the
  allowance is 0, a stake of 200 with valid transaction options is converted and the
  stake request is handed to the node; the failure is the node's rejection of the sent
  transaction, not a failed precondition.
\<close>

theorem requestStake_zero_allowance_sent:
  "requestStake sampleEnv sampleToken (Num 200) sampleTxOptions \<lparr>allowance = 0, submitted = []\<rparr> =
     (Inl (Rejection (Str ''revert'')),
      \<lparr>allowance = 0,
       submitted = [(Method (Contract node tokenAddress) ''requestStake'' [Num 200, Num 2],
                     sampleTxOptions)]\<rparr>)"
  by (simp add: requestStake_sample)

text \<open>
  C2, amended. \<open>requestStake\<close> checks the transaction options and nothing else: it
  ends without sending only with a \<open>TypeError\<close> for invalid transaction options, or
  with the rejection of the conversion call; in every other case the stake request is
  handed to the node. On the sample chain the request is sent whatever the allowance is.
\<close>

theorem requestStake_checks_only_txOptions:
  "((\<not> truthy txOptions \<or> \<not> isAddress E (get_from txOptions)) \<and>
      (\<exists>parts. requestStake E this amount txOptions ch = (Inl (TypeError parts), ch)) \<or>
    truthy txOptions \<and> isAddress E (get_from txOptions) \<and>
      (\<exists>err. convertToBrandedTokens E this amount ch = Inl err \<and>
             requestStake E this amount txOptions ch = (Inl err, ch)) \<or>
    truthy txOptions \<and> isAddress E (get_from txOptions) \<and>
      (\<exists>minted. convertToBrandedTokens E this amount ch = Inr minted \<and>
                requestStake E this amount txOptions ch =
                  sendTransaction E (Method (contract this) ''requestStake'' [amount, minted])
                    txOptions ch)) \<and>
   submitted (snd (requestStake sampleEnv sampleToken (Num 200) sampleTxOptions
                     \<lparr>allowance = al, submitted = []\<rparr>)) =
     [(Method (Contract node tokenAddress) ''requestStake'' [Num 200, Num 2], sampleTxOptions)]"
proof -
  have first: "(\<not> truthy txOptions \<or> \<not> isAddress E (get_from txOptions)) \<and>
      (\<exists>parts. requestStake E this amount txOptions ch = (Inl (TypeError parts), ch)) \<or>
    truthy txOptions \<and> isAddress E (get_from txOptions) \<and>
      (\<exists>err. convertToBrandedTokens E this amount ch = Inl err \<and>
             requestStake E this amount txOptions ch = (Inl err, ch)) \<or>
    truthy txOptions \<and> isAddress E (get_from txOptions) \<and>
      (\<exists>minted. convertToBrandedTokens E this amount ch = Inr minted \<and>
                requestStake E this amount txOptions ch =
                  sendTransaction E (Method (contract this) ''requestStake'' [amount, minted])
                    txOptions ch)"
  proof (cases "truthy txOptions \<and> isAddress E (get_from txOptions)")
    case False
    then show ?thesis
      by (auto simp add: requestStake_def)
  next
    case True
    then show ?thesis
      by (cases "convertToBrandedTokens E this amount ch")
        (simp_all add: requestStake_def requestStakeRawTx_def)
  qed
  show ?thesis
    using first by (simp add: requestStake_sample)
qed

theorem requestStake_checks_only_txOptions_witness:
  "truthy sampleTxOptions \<and> isAddress sampleEnv (get_from sampleTxOptions) \<and>
   convertToBrandedTokens sampleEnv sampleToken (Num 200) \<lparr>allowance = 0, submitted = []\<rparr> =
     Inr (Num 2) \<and>
   requestStake sampleEnv sampleToken (Num 200) sampleTxOptions \<lparr>allowance = 0, submitted = []\<rparr> =
     sendTransaction sampleEnv (Method (contract sampleToken) ''requestStake'' [Num 200, Num 2])
       sampleTxOptions \<lparr>allowance = 0, submitted = []\<rparr> \<and>
   submitted (snd (requestStake sampleEnv sampleToken (Num 200) sampleTxOptions
                     \<lparr>allowance = 0, submitted = []\<rparr>)) =
     [(Method (Contract node tokenAddress) ''requestStake'' [Num 200, Num 2], sampleTxOptions)]"
proof -
  have valid: "isAddress sampleEnv (get_from sampleTxOptions)"
    by (simp add: sampleEnv_def get_from_sampleTxOptions sampleIsAddress_owner)
  have conv: "convertToBrandedTokens sampleEnv sampleToken (Num 200)
                \<lparr>allowance = 0, submitted = []\<rparr> = Inr (Num 2)"
    by (simp add: convertToBrandedTokens_def sampleEnv_def computeMintAmount_def)
  from truthy_sampleTxOptions valid conv
    requestStake_checks_only_txOptions [where txOptions = sampleTxOptions and E = sampleEnv
      and this = sampleToken and amount = "Num 200"
      and ch = "\<lparr>allowance = 0, submitted = []\<rparr>" and al = 0]
  have "requestStake sampleEnv sampleToken (Num 200) sampleTxOptions
          \<lparr>allowance = 0, submitted = []\<rparr> =
        sendTransaction sampleEnv (Method (contract sampleToken) ''requestStake'' [Num 200, Num 2])
          sampleTxOptions \<lparr>allowance = 0, submitted = []\<rparr> \<and>
        submitted (snd (requestStake sampleEnv sampleToken (Num 200) sampleTxOptions
                     \<lparr>allowance = 0, submitted = []\<rparr>)) =
          [(Method (Contract node tokenAddress) ''requestStake'' [Num 200, Num 2],
            sampleTxOptions)]"
    by auto
  with truthy_sampleTxOptions valid conv show ?thesis
    by blast
qed

text \<open>
  C3, as stated, fails: the accept operation of the class takes the request hash, the
  three components of the worker's signature and the transaction options, and no hash
  lock. With these alone the acceptance is handed to the node, and the transaction
  carries exactly the hash and the signature's \<open>r\<close>, \<open>s\<close>, \<open>v\<close>.
\<close>

theorem acceptStakeRequest_sent_without_hashLock:
  "acceptStakeRequest sampleEnv sampleToken (Str ''0xab'') (Str ''0x01'') (Str ''0x02'') (Num 27)
       sampleTxOptions \<lparr>allowance = 1000, submitted = []\<rparr> =
     (Inr receipt,
      \<lparr>allowance = 1000,
       submitted = [(Method (Contract node tokenAddress) ''acceptStakeRequest''
                       [Str ''0xab'', Str ''0x01'', Str ''0x02'', Num 27],
                     sampleTxOptions)]\<rparr>)"
  by (simp add: acceptStakeRequest_def acceptStakeRequestRawTx_def truthy_sampleTxOptions
      get_from_sampleTxOptions sampleEnv_def sampleIsAddress_owner sampleSend_def
      sampleToken_def)

text \<open>
  C3, amended. \<open>acceptStakeRequest\<close> takes the request hash, the signature components
  \<open>r\<close>, \<open>s\<close>, \<open>v\<close> and the transaction options. Before the acceptance is sent it
  requires transaction options with a valid \<open>from\<close> address and each of the four
  arguments to be truthy; then it sends the contract's \<open>acceptStakeRequest\<close>
  transaction over exactly these four arguments. When a requirement fails it rejects
  with a \<open>TypeError\<close> and sends nothing.
\<close>

theorem acceptStakeRequest_requirements:
  "(truthy txOptions \<and> isAddress E (get_from txOptions) \<and> truthy h \<and> truthy r \<and> truthy s \<and>
      truthy v \<longrightarrow>
      acceptStakeRequest E this h r s v txOptions ch =
        sendTransaction E (Method (contract this) ''acceptStakeRequest'' [h, r, s, v])
          txOptions ch) \<and>
   (\<not> (truthy txOptions \<and> isAddress E (get_from txOptions) \<and> truthy h \<and> truthy r \<and> truthy s \<and>
        truthy v) \<longrightarrow>
      (\<exists>parts. acceptStakeRequest E this h r s v txOptions ch = (Inl (TypeError parts), ch)))"
  by (auto simp add: acceptStakeRequest_def acceptStakeRequestRawTx_def)

theorem acceptStakeRequest_requirements_witness:
  "truthy sampleTxOptions \<and> isAddress sampleEnv (get_from sampleTxOptions) \<and>
   truthy (Str ''0xab'') \<and> truthy (Str ''0x01'') \<and> truthy (Str ''0x02'') \<and> truthy (Num 27) \<and>
   acceptStakeRequest sampleEnv sampleToken (Str ''0xab'') (Str ''0x01'') (Str ''0x02'') (Num 27)
       sampleTxOptions \<lparr>allowance = 1000, submitted = []\<rparr> =
     sendTransaction sampleEnv
       (Method (contract sampleToken) ''acceptStakeRequest''
          [Str ''0xab'', Str ''0x01'', Str ''0x02'', Num 27])
       sampleTxOptions \<lparr>allowance = 1000, submitted = []\<rparr> \<and>
   (\<exists>parts. acceptStakeRequest sampleEnv sampleToken (Str ''0xab'') (Str ''0x01'') (Str [])
              (Num 27) sampleTxOptions \<lparr>allowance = 1000, submitted = []\<rparr> =
            (Inl (TypeError parts), \<lparr>allowance = 1000, submitted = []\<rparr>))"
proof -
  have valid: "isAddress sampleEnv (get_from sampleTxOptions)"
    by (simp add: sampleEnv_def get_from_sampleTxOptions sampleIsAddress_owner)
  have args: "truthy (Str ''0xab'') \<and> truthy (Str ''0x01'') \<and> truthy (Str ''0x02'') \<and>
              truthy (Num 27)"
    by simp
  have empty: "\<not> truthy (Str [])"
    by simp
  from truthy_sampleTxOptions valid args
    acceptStakeRequest_requirements [of sampleTxOptions sampleEnv "Str ''0xab''"
      "Str ''0x01''" "Str ''0x02''" "Num 27" sampleToken
      "\<lparr>allowance = 1000, submitted = []\<rparr>"]
  have sent: "acceptStakeRequest sampleEnv sampleToken (Str ''0xab'') (Str ''0x01'')
                (Str ''0x02'') (Num 27) sampleTxOptions \<lparr>allowance = 1000, submitted = []\<rparr> =
              sendTransaction sampleEnv
                (Method (contract sampleToken) ''acceptStakeRequest''
                   [Str ''0xab'', Str ''0x01'', Str ''0x02'', Num 27])
                sampleTxOptions \<lparr>allowance = 1000, submitted = []\<rparr>"
    by blast
  from empty
    acceptStakeRequest_requirements [of sampleTxOptions sampleEnv "Str ''0xab''"
      "Str ''0x01''" "Str []" "Num 27" sampleToken "\<lparr>allowance = 1000, submitted = []\<rparr>"]
  have unsent: "\<exists>parts. acceptStakeRequest sampleEnv sampleToken (Str ''0xab'') (Str ''0x01'')
                  (Str []) (Num 27) sampleTxOptions \<lparr>allowance = 1000, submitted = []\<rparr> =
                (Inl (TypeError parts), \<lparr>allowance = 1000, submitted = []\<rparr>)"
    by blast
  show ?thesis
    using truthy_sampleTxOptions valid args sent unsent by blast
qed

section \<open>The registry: one open request per staker, cleared as a whole\<close>

lemma create_sample: "create sampleParams emptyRegistry sampleRequest = Inr openRegistry"
  by (simp add: create_def state_of_def lookup_staker_def next_nonce_def emptyRegistry_def
      sampleRequest_def sampleParams_def computeMintAmount_def openRegistry_def)

lemma create_opens:
  assumes "create P reg req = Inr reg'"
  shows "state_of reg' (staker req) = Open"
proof -
  from assms
  have "reg' = reg\<lparr>hashOf := (hashOf reg)(staker req \<mapsto> hasher P req),
                     requestOf := (requestOf reg)(hasher P req \<mapsto> req),
                     consumed := (consumed reg)(staker req := nonce req)\<rparr>"
    by (simp add: create_def split: if_splits)
  then show ?thesis
    by (simp add: state_of_def lookup_staker_def)
qed

text \<open>
  C7. After a successful accept of an open stake request, the lookup by staker returns
  null and the lookup by request hash returns the empty record. The two mappings are
  cleared together: after any accept, successful or not, either both entries are gone
  or the registry is the one before.
\<close>

theorem accept_clears_both:
  assumes "lookup_hash reg h = Some req" and "lookup_staker reg (staker req) = Some h"
  shows "(accept P reg h sg hl = Inr reg' \<longrightarrow>
            lookup_staker reg' (staker req) = None \<and> lookup_hash reg' h = None \<and>
            state_of reg' (staker req) = Empty) \<and>
         (lookup_staker (registry_after (accept P reg h sg hl) reg) (staker req) = None \<and>
          lookup_hash (registry_after (accept P reg h sg hl) reg) h = None \<or>
          registry_after (accept P reg h sg hl) reg = reg)"
proof -
  have success: "accept P reg h sg hl = Inr reg' \<longrightarrow>
            lookup_staker reg' (staker req) = None \<and> lookup_hash reg' h = None \<and>
            state_of reg' (staker req) = Empty"
    using assms
    by (auto simp add: accept_def state_of_def lookup_staker_def lookup_hash_def
        split: sum.splits if_splits)
  have whole: "lookup_staker (registry_after (accept P reg h sg hl) reg) (staker req) = None \<and>
          lookup_hash (registry_after (accept P reg h sg hl) reg) h = None \<or>
          registry_after (accept P reg h sg hl) reg = reg"
    using assms
    by (auto simp add: accept_def registry_after_def lookup_staker_def lookup_hash_def
        split: sum.splits if_splits)
  from success whole show ?thesis
    by blast
qed

theorem accept_clears_both_witness:
  "lookup_hash openRegistry 8 = Some sampleRequest \<and>
   lookup_staker openRegistry (staker sampleRequest) = Some 8 \<and>
   accept sampleParams openRegistry 8 \<lparr>sig_r = 8, sig_s = 1, sig_v = 27\<rparr> \<lparr>lock = 5\<rparr> =
     Inr (openRegistry\<lparr>hashOf := (hashOf openRegistry)(''staker'' := None),
                       requestOf := (requestOf openRegistry)(8 := None)\<rparr>) \<and>
   lookup_staker (openRegistry\<lparr>hashOf := (hashOf openRegistry)(''staker'' := None),
                       requestOf := (requestOf openRegistry)(8 := None)\<rparr>)
     (staker sampleRequest) = None \<and>
   lookup_hash (openRegistry\<lparr>hashOf := (hashOf openRegistry)(''staker'' := None),
                       requestOf := (requestOf openRegistry)(8 := None)\<rparr>) 8 = None"
proof -
  have byhash: "lookup_hash openRegistry 8 = Some sampleRequest"
    by (simp add: lookup_hash_def openRegistry_def)
  have bystaker: "lookup_staker openRegistry (staker sampleRequest) = Some 8"
    by (simp add: lookup_staker_def openRegistry_def sampleRequest_def)
  have accepted: "accept sampleParams openRegistry 8 \<lparr>sig_r = 8, sig_s = 1, sig_v = 27\<rparr>
                    \<lparr>lock = 5\<rparr> =
                  Inr (openRegistry\<lparr>hashOf := (hashOf openRegistry)(''staker'' := None),
                         requestOf := (requestOf openRegistry)(8 := None)\<rparr>)"
    using byhash bystaker
    by (simp add: accept_def sampleParams_def sampleRequest_def)
  from accepted
    accept_clears_both [OF byhash bystaker, of sampleParams "\<lparr>sig_r = 8, sig_s = 1, sig_v = 27\<rparr>"
      "\<lparr>lock = 5\<rparr>"
      "openRegistry\<lparr>hashOf := (hashOf openRegistry)(''staker'' := None),
                       requestOf := (requestOf openRegistry)(8 := None)\<rparr>"]
  have cleared: "lookup_staker (openRegistry\<lparr>hashOf := (hashOf openRegistry)(''staker'' := None),
                       requestOf := (requestOf openRegistry)(8 := None)\<rparr>)
                   (staker sampleRequest) = None \<and>
                 lookup_hash (openRegistry\<lparr>hashOf := (hashOf openRegistry)(''staker'' := None),
                       requestOf := (requestOf openRegistry)(8 := None)\<rparr>) 8 = None"
    by blast
  show ?thesis
    using byhash bystaker accepted cleared by blast
qed

text \<open>
  C8. For a staker whose state is \<open>Open\<close>, a create fails with \<open>DuplicateRequest\<close>;
  in particular a create that succeeded, followed by a second create for the same
  staker before the request is cleared, fails with \<open>DuplicateRequest\<close>, whatever the
  fields of the second request are.
\<close>

theorem create_twice_duplicate:
  "(state_of reg (staker req) = Open \<longrightarrow> create P reg req = Inl DuplicateRequest) \<and>
   (create P reg req = Inr reg' \<and> staker again = staker req \<longrightarrow>
      create P reg' again = Inl DuplicateRequest)"
proof -
  have "create P reg req = Inr reg' \<and> staker again = staker req \<longrightarrow>
          state_of reg' (staker again) = Open"
    using create_opens [of P reg req reg'] by simp
  then show ?thesis
    by (simp add: create_def)
qed

theorem create_twice_duplicate_witness:
  "create sampleParams emptyRegistry sampleRequest = Inr openRegistry \<and>
   state_of openRegistry (staker sampleRequest) = Open \<and>
   create sampleParams openRegistry sampleRequest = Inl DuplicateRequest \<and>
   create sampleParams openRegistry (sampleRequest\<lparr>nonce := 2\<rparr>) = Inl DuplicateRequest"
proof -
  have same: "staker (sampleRequest\<lparr>nonce := 2\<rparr>) = staker sampleRequest"
    by simp
  from create_sample same
    create_twice_duplicate [of openRegistry sampleRequest sampleParams emptyRegistry
      "sampleRequest\<lparr>nonce := 2\<rparr>"]
    create_twice_duplicate [of emptyRegistry sampleRequest sampleParams openRegistry
      sampleRequest]
    create_twice_duplicate [of emptyRegistry sampleRequest sampleParams openRegistry
      "sampleRequest\<lparr>nonce := 2\<rparr>"]
    create_opens [OF create_sample]
  show ?thesis
    by simp
qed

end
